theory Spec2Isabelle
  imports Complex_Main "HOL-Library.Log_Nat"
begin

section \<open>The billing page (src/src/pages/Billing.tsx)\<close>

text \<open>
  The billing page is a React component: its state is a handful of \<open>useState\<close> cells and
  its operations are closures that read the cells and write them back with the setters.
  Here the cells are the fields of one record, every operation takes the state and returns
  the new one together with the notification (toast) it raised, and the two remote calls
  the page makes (\<open>apiClient.getMedicineBatches\<close>, \<open>apiClient.createSale\<close>) are
  parameters of the operations that use them.

  Cart quantities and stock figures start at the literal 1 and move by the integer
  \<open>delta\<close>; they are \<open>int\<close>. Prices, the discount percentage and the amounts are
  doubles, with the rounding of every operation (see below).
\<close>

subsection \<open>JavaScript values\<close>

text \<open>An optional string property: \<open>None\<close> is \<open>undefined\<close>.\<close>

definition truthy :: "string option \<Rightarrow> bool" where
  "truthy v = (case v of None \<Rightarrow> False | Some s \<Rightarrow> s \<noteq> [])"

text \<open>\<open>a || b\<close> on optional strings.\<close>

definition js_or :: "string option \<Rightarrow> string option \<Rightarrow> string option" where
  "js_or a b = (if truthy a then a else b)"

subsection \<open>JavaScript numbers\<close>

text \<open>
  Prices, the discount percentage and every amount of the page are JavaScript numbers,
  that is IEEE-754 binary64 values. A finite double is modelled by the rational number it
  denotes, and an arithmetic operation of the page is the exact operation followed by
  \<open>fl\<close>, the rounding to the nearest double with ties going to the even significand:
  53 significant bits, least exponent -1074 (subnormal numbers included).

  \<open>NaN\<close>, the infinities and the sign of zero are not modelled: an operation whose exact
  result is \<open>2 ^ 1024\<close> or more in magnitude, which the code answers with \<open>Infinity\<close>,
  lies outside the model.
\<close>

text \<open>Rounding to the nearest integer, ties to even.\<close>

definition roundHalfEven :: "rat \<Rightarrow> int" where
  "roundHalfEven x =
     (let n = \<lfloor>x\<rfloor>; r = x - of_int n
      in if r < 1 / 2 then n else if 1 / 2 < r then n + 1 else if even n then n else n + 1)"

text \<open>The binary exponent of a positive rational: the \<open>k\<close> with \<open>2 ^ k \<le> x < 2 ^ (k + 1)\<close>.\<close>

definition ilog2 :: "rat \<Rightarrow> int" where
  "ilog2 x =
     (case quotient_of x of (p, q) \<Rightarrow>
        (let e = bitlen p - bitlen q in if 2 powi e \<le> x then e else e - 1))"

definition fl :: "rat \<Rightarrow> rat" where
  "fl x =
     (if x = 0 then 0
      else (let a = \<bar>x\<bar>; e = max (ilog2 a - 52) (- 1074)
            in sgn x * of_int (roundHalfEven (a / 2 powi e)) * 2 powi e))"

text \<open>The operators \<open>+\<close>, \<open>-\<close>, \<open>*\<close> and \<open>/\<close> on numbers.\<close>

definition fadd :: "rat \<Rightarrow> rat \<Rightarrow> rat" where
  "fadd a b = fl (a + b)"

definition fsub :: "rat \<Rightarrow> rat \<Rightarrow> rat" where
  "fsub a b = fl (a - b)"

definition fmul :: "rat \<Rightarrow> rat \<Rightarrow> rat" where
  "fmul a b = fl (a * b)"

definition fdiv :: "rat \<Rightarrow> rat \<Rightarrow> rat" where
  "fdiv a b = fl (a / b)"



subsection \<open>Data\<close>

text \<open>
  \<open>Medicine\<close> and \<open>Inventory\<close> of src/src/lib/api.ts. The property \<open>_id\<close> is the field
  \<open>m_uid\<close> (\<open>inv_uid\<close>), the property \<open>id\<close> is \<open>m_id\<close> (\<open>inv_id\<close>). The
  descriptive properties that the page only copies (generic name, manufacturer, category,
  dosage form, strength, barcode, prescription flag, status, purchase price) are left out.
\<close>

record Medicine =
  m_uid :: "string option"
  m_id :: "string option"
  m_name :: string

record Inventory =
  inv_uid :: "string option"
  inv_id :: "string option"
  inv_medicine :: "string option"
  batchNumber :: string
  manufacturingDate :: string
  expiryDate :: string
  inv_quantity :: int
  sellingPrice :: rat

text \<open>One element of \<open>medicineData.batches\<close>, as the search endpoint delivers it.\<close>

record Batch =
  batchId :: "string option"
  b_batchNumber :: string
  b_manufacturingDate :: string
  b_expiryDate :: string
  b_quantity :: int
  b_sellingPrice :: rat

text \<open>
  One search result (\<open>medicineData: any\<close>). \<open>batches\<close> may be missing (\<open>None\<close>).
\<close>

record MedicineData =
  d_uid :: "string option"
  d_id :: "string option"
  d_name :: string
  hasStock :: bool
  availableStock :: int
  batches :: "Batch list option"

record CartItem =
  medicine :: Medicine
  inventory :: Inventory
  quantity :: int
  unitPrice :: rat

datatype PaymentMethod = Cash | Card | Esewa | Khalti | MobilePayment | Credit

datatype PaymentStatus = Paid | Partial | Pending

record SaleItem =
  si_medicine :: "string option"
  si_inventory :: "string option"
  si_batchNumber :: string
  si_quantity :: int
  si_unitPrice :: rat
  si_subtotal :: rat

text \<open>The object \<open>saleData\<close> that \<open>handleCheckout\<close> posts.\<close>

record SaleData =
  sd_customerName :: "string option"
  sd_customerMobile :: "string option"
  items :: "SaleItem list"
  sd_subtotal :: rat
  sd_discount :: rat
  sd_discountPercentage :: rat
  vatRate :: rat
  sd_vatAmount :: rat
  totalAmount :: rat
  sd_paymentMethod :: PaymentMethod
  paymentStatus :: PaymentStatus
  amountPaid :: rat
  amountDue :: rat

text \<open>
  What a call of \<open>apiClient.request\<close> (src/src/lib/api.ts) can do: throw an \<open>Error\<close> with
  a message (network failure, non-JSON body, HTTP status outside 2xx), or return the parsed
  \<open>ApiResponse\<close> with its \<open>success\<close> flag, optional \<open>data\<close> and optional \<open>message\<close>.
\<close>

datatype 'a ApiResult = Threw string | Returned bool "'a option" "string option"

record BatchesData =
  bd_batches :: "Batch list"

record SaleCreated =
  r_uid :: "string option"
  r_id :: "string option"

text \<open>The notifications of the page, one constructor per \<open>toast\<close> call.\<close>

datatype Toast =
    NoAvailableStock
  | InsufficientStock int
  | CartIsEmpty
  | SaleCompleted
  | SaleFailed string

record BillingState =
  cart :: "CartItem list"
  customerName :: string
  customerMobile :: string
  discountPercentage :: rat
  paymentMethod :: PaymentMethod
  lastInvoiceId :: "string option"
  isSubmitting :: bool
  searchQuery :: string
  searchResults :: "MedicineData list"

text \<open>The initial values of the \<open>useState\<close> cells.\<close>

definition initialState :: BillingState where
  "initialState =
     \<lparr>cart = [], customerName = [], customerMobile = [], discountPercentage = 0,
      paymentMethod = Cash, lastInvoiceId = None, isSubmitting = False,
      searchQuery = [], searchResults = []\<rparr>"

subsection \<open>Cart operations\<close>

text \<open>\<open>item.medicine._id || item.medicine.id\<close>\<close>

definition medKey :: "Medicine \<Rightarrow> string option" where
  "medKey m = js_or (m_uid m) (m_id m)"

definition itemKey :: "CartItem \<Rightarrow> string option" where
  "itemKey item = medKey (medicine item)"

definition removeFromCart :: "string \<Rightarrow> BillingState \<Rightarrow> BillingState" where
  "removeFromCart medicineId st =
     st\<lparr>cart := filter (\<lambda>item. m_uid (medicine item) \<noteq> Some medicineId
                                \<and> m_id (medicine item) \<noteq> Some medicineId) (cart st)\<rparr>"

definition mkMedicine :: "MedicineData \<Rightarrow> Medicine" where
  "mkMedicine medicineData =
     \<lparr>m_uid = js_or (d_uid medicineData) (d_id medicineData),
      m_id = js_or (d_uid medicineData) (d_id medicineData),
      m_name = d_name medicineData\<rparr>"

definition mkInventoryItem :: "Medicine \<Rightarrow> Batch \<Rightarrow> Inventory" where
  "mkInventoryItem med selectedBatch =
     \<lparr>inv_uid = batchId selectedBatch,
      inv_id = batchId selectedBatch,
      inv_medicine = js_or (m_uid med) (m_id med),
      batchNumber = b_batchNumber selectedBatch,
      manufacturingDate = b_manufacturingDate selectedBatch,
      expiryDate = b_expiryDate selectedBatch,
      inv_quantity = b_quantity selectedBatch,
      sellingPrice = b_sellingPrice selectedBatch\<rparr>"

text \<open>
  \<open>addToCart\<close>: the guard on \<open>hasStock\<close> and \<open>batches\<close>, the choice of \<open>batches[0]\<close>,
  the lookup of the medicine in the cart, and the two branches.
\<close>

definition addToCart :: "MedicineData \<Rightarrow> BillingState \<Rightarrow> Toast option \<times> BillingState" where
  "addToCart medicineData st =
     (if \<not> hasStock medicineData then (Some NoAvailableStock, st)
      else case batches medicineData of
        None \<Rightarrow> (Some NoAvailableStock, st)
      | Some [] \<Rightarrow> (Some NoAvailableStock, st)
      | Some (selectedBatch # _) \<Rightarrow>
          (let med = mkMedicine medicineData;
               inventoryItem = mkInventoryItem med selectedBatch
           in case find (\<lambda>item. itemKey item = medKey med) (cart st) of
                Some existingItem \<Rightarrow>
                  (let totalRequested = quantity existingItem + 1;
                       totalAvailable = availableStock medicineData
                   in if totalRequested > totalAvailable
                      then (Some (InsufficientStock totalAvailable), st)
                      else (None,
                            st\<lparr>cart := map (\<lambda>item. if itemKey item = medKey med
                                                    then item\<lparr>quantity := quantity item + 1\<rparr>
                                                    else item) (cart st)\<rparr>))
              | None \<Rightarrow>
                  (None,
                   st\<lparr>cart := cart st @
                      [\<lparr>medicine = med, inventory = inventoryItem, quantity = 1,
                        unitPrice = b_sellingPrice selectedBatch\<rparr>]\<rparr>)))"

text \<open>
  \<open>updateQuantity\<close>. The \<open>try\<close> block around the stock lookup catches and logs what
  the call throws, and its \<open>if\<close> has no \<open>else\<close>: when the call throws, or when the
  response is unsuccessful or carries no data, the new quantity is applied unchecked.
\<close>

definition totalAvailableOf :: "BatchesData \<Rightarrow> int" where
  "totalAvailableOf d = foldl (\<lambda>sum batch. sum + b_quantity batch) 0 (bd_batches d)"

definition setQuantity :: "string \<Rightarrow> int \<Rightarrow> BillingState \<Rightarrow> BillingState" where
  "setQuantity medicineId newQuantity st =
     st\<lparr>cart := map (\<lambda>item. if itemKey item = Some medicineId
                             then item\<lparr>quantity := newQuantity\<rparr>
                             else item) (cart st)\<rparr>"

definition updateQuantity ::
  "(string \<Rightarrow> BatchesData ApiResult) \<Rightarrow> string \<Rightarrow> int \<Rightarrow> BillingState
     \<Rightarrow> Toast option \<times> BillingState" where
  "updateQuantity getMedicineBatches medicineId delta st =
     (case find (\<lambda>item. itemKey item = Some medicineId) (cart st) of
        None \<Rightarrow> (None, st)
      | Some item \<Rightarrow>
          (let newQuantity = quantity item + delta
           in if newQuantity \<le> 0 then (None, removeFromCart medicineId st)
              else case getMedicineBatches medicineId of
                Returned True (Some d) _ \<Rightarrow>
                  (let totalAvailable = totalAvailableOf d
                   in if newQuantity > totalAvailable
                      then (Some (InsufficientStock totalAvailable), st)
                      else (None, setQuantity medicineId newQuantity st))
              | _ \<Rightarrow> (None, setQuantity medicineId newQuantity st)))"

subsection \<open>Pricing and checkout\<close>

record Totals =
  subtotal :: rat
  discount :: rat
  vatAmount :: rat
  totalDue :: rat

text \<open>\<open>calculateTotals\<close>; the field \<open>totalDue\<close> is the property \<open>total\<close>.\<close>

definition calculateTotals :: "BillingState \<Rightarrow> Totals" where
  "calculateTotals st =
     (let subtotal = foldl (\<lambda>sum item. fadd sum (fmul (unitPrice item) (of_int (quantity item))))
                       0 (cart st);
          discount = fdiv (fmul subtotal (discountPercentage st)) 100;
          afterDiscount = fsub subtotal discount;
          vatRate = 13;
          vatAmount = fdiv (fmul afterDiscount vatRate) 100;
          total = fadd afterDiscount vatAmount
      in \<lparr>subtotal = subtotal, discount = discount, vatAmount = vatAmount, totalDue = total\<rparr>)"

text \<open>\<open>s || undefined\<close> on a string: the empty string becomes \<open>undefined\<close>.\<close>

definition orUndefined :: "string \<Rightarrow> string option" where
  "orUndefined s = (if s = [] then None else Some s)"

definition mkSaleItem :: "CartItem \<Rightarrow> SaleItem" where
  "mkSaleItem item =
     \<lparr>si_medicine = js_or (m_uid (medicine item)) (m_id (medicine item)),
      si_inventory = js_or (inv_uid (inventory item)) (inv_id (inventory item)),
      si_batchNumber = batchNumber (inventory item),
      si_quantity = quantity item,
      si_unitPrice = unitPrice item,
      si_subtotal = fmul (unitPrice item) (of_int (quantity item))\<rparr>"

definition mkSaleData :: "BillingState \<Rightarrow> SaleData" where
  "mkSaleData st =
     (let t = calculateTotals st
      in \<lparr>sd_customerName = orUndefined (customerName st),
          sd_customerMobile = orUndefined (customerMobile st),
          items = map mkSaleItem (cart st),
          sd_subtotal = subtotal t,
          sd_discount = discount t,
          sd_discountPercentage = discountPercentage st,
          vatRate = 13,
          sd_vatAmount = vatAmount t,
          totalAmount = totalDue t,
          sd_paymentMethod = paymentMethod st,
          paymentStatus = Paid,
          amountPaid = totalDue t,
          amountDue = 0\<rparr>)"

text \<open>
  The outcome of \<open>handleCheckout\<close>: the toast, the object passed to \<open>createSale\<close> (if the
  call was made), and the state afterwards.
\<close>

record CheckoutResult =
  toast :: "Toast option"
  submitted :: "SaleData option"
  after :: BillingState

text \<open>The message \<open>m || fallback\<close> of an \<open>Error\<close>.\<close>

definition messageOr :: "string \<Rightarrow> string \<Rightarrow> string" where
  "messageOr m fallback = (if m = [] then fallback else m)"

definition handleCheckout ::
  "(SaleData \<Rightarrow> SaleCreated ApiResult) \<Rightarrow> BillingState \<Rightarrow> CheckoutResult" where
  "handleCheckout createSale st =
     (if cart st = [] then \<lparr>toast = Some CartIsEmpty, submitted = None, after = st\<rparr>
      else
        (let saleData = mkSaleData st
         in case createSale saleData of
              Returned True (Some d) _ \<Rightarrow>
                \<lparr>toast = Some SaleCompleted, submitted = Some saleData,
                 after = st\<lparr>lastInvoiceId := js_or (r_uid d) (r_id d), cart := [],
                            customerName := [], customerMobile := [],
                            discountPercentage := 0, searchQuery := [],
                            searchResults := [], isSubmitting := False\<rparr>\<rparr>
            | Returned _ _ msg \<Rightarrow>
                \<lparr>toast = Some (SaleFailed (messageOr
                            (messageOr (case msg of None \<Rightarrow> [] | Some m \<Rightarrow> m)
                               ''Failed to create sale'')
                            ''Failed to complete sale'')),
                 submitted = Some saleData, after = st\<lparr>isSubmitting := False\<rparr>\<rparr>
            | Threw m \<Rightarrow>
                \<lparr>toast = Some (SaleFailed (messageOr m ''Failed to complete sale'')),
                 submitted = Some saleData, after = st\<lparr>isSubmitting := False\<rparr>\<rparr>))"

text \<open>
  The \<open>onChange\<close> handler of the discount field:
  \<open>setDiscountPercentage(parseFloat(e.target.value) || 0)\<close>. The argument is the double
  that \<open>parseFloat\<close> returns, \<open>None\<close> when it is \<open>NaN\<close>.
\<close>

definition onDiscountChange :: "rat option \<Rightarrow> BillingState \<Rightarrow> BillingState" where
  "onDiscountChange parsed st =
     st\<lparr>discountPercentage := (case parsed of None \<Rightarrow> 0 | Some v \<Rightarrow> v)\<rparr>"

subsection \<open>The subtotal as the specification states it\<close>


subsection \<open>The cart invariant\<close>

text \<open>
  Every item has a quantity of at least 1, and no two items have the same medicine
  identity (the value \<open>item.medicine._id || item.medicine.id\<close> that every lookup in the
  page compares).
\<close>

definition cartInv :: "CartItem list \<Rightarrow> bool" where
  "cartInv c = (list_all (\<lambda>item. 1 \<le> quantity item) c \<and> distinct (map itemKey c))"

text \<open>
  \<open>addToCart\<close> builds every medicine of the cart with the same value in \<open>_id\<close> and in
  \<open>id\<close>; \<open>removeFromCart\<close> compares the two properties one by one.
\<close>

definition sameIds :: "CartItem list \<Rightarrow> bool" where
  "sameIds c = list_all (\<lambda>item. m_uid (medicine item) = m_id (medicine item)) c"

text \<open>Pressing \<open>Add\<close> on each search result of a list in turn.\<close>

definition addAll :: "MedicineData list \<Rightarrow> BillingState \<Rightarrow> BillingState" where
  "addAll ds st = foldl (\<lambda>s d. snd (addToCart d s)) st ds"

subsection \<open>The stock endpoint as the page sees it\<close>

text \<open>
  \<open>apiClient.getMedicineBatches\<close> is a GET through \<open>apiClient.request\<close>. The server is
  not part of the repository; this record keeps the two facts about it that the page
  depends on: the batches it holds for each medicine, and whether the network reaches it.
  When \<open>fetch\<close> fails, \<open>request\<close> throws the \<open>Error\<close> with the message below.
\<close>

record Backend =
  online :: bool
  stockOf :: "string \<Rightarrow> Batch list"

definition getMedicineBatches :: "Backend \<Rightarrow> string \<Rightarrow> BatchesData ApiResult" where
  "getMedicineBatches srv medicineId =
     (if online srv
      then Returned True (Some \<lparr>bd_batches = stockOf srv medicineId\<rparr>) None
      else Threw ''Unable to connect to server. Please ensure the backend is running on http://localhost:5000'')"

subsection \<open>Sample data\<close>

text \<open>
  The scenario of the specification: a medicine with batch B1 (expiry 2025-01-01,
  quantity 5) and batch B2 (expiry 2025-06-01, quantity 10).
\<close>

definition sampleB1 :: Batch where
  "sampleB1 = \<lparr>batchId = Some ''B1'', b_batchNumber = ''BN-001'',
      b_manufacturingDate = ''2024-01-01'', b_expiryDate = ''2025-01-01'',
      b_quantity = 5, b_sellingPrice = 10\<rparr>"

definition sampleB2 :: Batch where
  "sampleB2 = \<lparr>batchId = Some ''B2'', b_batchNumber = ''BN-002'',
      b_manufacturingDate = ''2024-06-01'', b_expiryDate = ''2025-06-01'',
      b_quantity = 10, b_sellingPrice = 12\<rparr>"

definition sampleMedicine :: MedicineData where
  "sampleMedicine = \<lparr>d_uid = Some ''M'', d_id = None, d_name = ''Paracetamol'',
      hasStock = True, availableStock = 15, batches = Some [sampleB1, sampleB2]\<rparr>"

definition sampleSyrup :: MedicineData where
  "sampleSyrup = \<lparr>d_uid = None, d_id = Some ''S'', d_name = ''Cough syrup'',
      hasStock = True, availableStock = 4,
      batches = Some [\<lparr>batchId = Some ''B7'', b_batchNumber = ''BN-007'',
        b_manufacturingDate = ''2024-03-01'', b_expiryDate = ''2026-03-01'',
        b_quantity = 4, b_sellingPrice = 15 / 2\<rparr>]\<rparr>"

text \<open>A server that accepts every sale, and one that cannot be reached.\<close>

definition acceptSale :: "SaleData \<Rightarrow> SaleCreated ApiResult" where
  "acceptSale saleData = Returned True (Some \<lparr>r_uid = Some ''INV-1'', r_id = None\<rparr>) None"

definition refuseSale :: "SaleData \<Rightarrow> SaleCreated ApiResult" where
  "refuseSale saleData = Threw ''Insufficient stock''"

definition sampleBackend :: "bool \<Rightarrow> Backend" where
  "sampleBackend up = \<lparr>online = up, stockOf = (\<lambda>medicineId. [sampleB1])\<rparr>"

text \<open>The sample medicine added once, and the syrup twice; then a 50 percent discount.\<close>

definition sampleState :: BillingState where
  "sampleState =
     onDiscountChange (Some 50)
       (addAll [sampleMedicine, sampleSyrup, sampleSyrup]
          (initialState\<lparr>paymentMethod := Credit, customerName := ''Sita''\<rparr>))"

text \<open>The sample medicine added six times.\<close>

definition sixAdded :: BillingState where
  "sixAdded =
     addAll [sampleMedicine, sampleMedicine, sampleMedicine,
             sampleMedicine, sampleMedicine, sampleMedicine] initialState"

text \<open>The sample medicine added five times: the whole of batch B1.\<close>

definition fiveAdded :: BillingState where
  "fiveAdded =
     addAll [sampleMedicine, sampleMedicine, sampleMedicine,
             sampleMedicine, sampleMedicine] initialState"

text \<open>
  A later search result for the same medicine, after batch B2 has been sold by someone
  else: only B1 is left.
\<close>

definition sampleMedicineLater :: MedicineData where
  "sampleMedicineLater = sampleMedicine\<lparr>availableStock := 5, batches := Some [sampleB1]\<rparr>"

text \<open>The sample medicine added once.\<close>

definition oneAdded :: BillingState where
  "oneAdded = addAll [sampleMedicine] initialState"




section \<open>Rounding to doubles\<close>

lemma bitlen_rat_upper:
  assumes "0 < p"
  shows "(of_int p :: rat) < 2 powi (bitlen p)"
proof -
  from bitlen_bounds[OF assms] have "p < 2 ^ nat (bitlen p)"
    by simp
  then have "(of_int p :: rat) < of_int (2 ^ nat (bitlen p))"
    by (simp only: of_int_less_iff)
  also have "(of_int (2 ^ nat (bitlen p)) :: rat) = 2 powi (bitlen p)"
    using bitlen_nonneg[of p] by (simp add: power_int_def)
  finally show ?thesis .
qed

lemma bitlen_rat_lower:
  assumes "0 < q"
  shows "(2::rat) powi (bitlen q - 1) \<le> of_int q"
proof -
  have bq: "1 \<le> bitlen q"
    using assms bitlen_eq_zero_iff[of q] bitlen_nonneg[of q] by linarith
  have eq: "(2::rat) powi (bitlen q - 1) = of_int (2 ^ nat (bitlen q - 1))"
    using bq by (simp add: power_int_def)
  from bitlen_bounds[OF assms] have "2 ^ nat (bitlen q - 1) \<le> q"
    by simp
  then have "(of_int (2 ^ nat (bitlen q - 1)) :: rat) \<le> of_int q"
    by (simp only: of_int_le_iff)
  then show ?thesis
    by (simp only: eq)
qed

text \<open>\<open>ilog2\<close> is the binary exponent.\<close>

lemma ilog2_bounds:
  assumes "0 < x"
  shows "2 powi (ilog2 x) \<le> x" and "x < 2 powi (ilog2 x + 1)"
proof -
  obtain p q where pq: "quotient_of x = (p, q)"
    by (cases "quotient_of x")
  then have q: "0 < q" and x: "x = of_int p / of_int q"
    by (simp_all add: quotient_of_denom_pos quotient_of_div)
  with assms have p: "0 < p"
    by (simp add: zero_less_divide_iff)
  let ?e = "bitlen p - bitlen q"
  have p0: "(0::rat) \<le> of_int p" and q0: "(0::rat) < of_int q"
    using p q by simp_all
  have pos: "(0::rat) < 2 powi (bitlen q - 1)"
    by simp
  have up: "x < 2 powi (?e + 1)"
  proof -
    have "of_int p / of_int q < (2::rat) powi (bitlen p) / 2 powi (bitlen q - 1)"
      by (rule frac_less[OF p0 bitlen_rat_upper[OF p] pos bitlen_rat_lower[OF q]])
    also have "\<dots> = 2 powi (bitlen p - (bitlen q - 1))"
      by (subst power_int_diff) simp_all
    also have "bitlen p - (bitlen q - 1) = ?e + 1"
      by simp
    finally show ?thesis
      by (simp only: x)
  qed
  have low: "2 powi (?e - 1) \<le> x"
  proof -
    have "(2::rat) powi (bitlen p - 1) / 2 powi (bitlen q) \<le> of_int p / of_int q"
      by (rule frac_le[OF p0 bitlen_rat_lower[OF p] q0 less_imp_le[OF bitlen_rat_upper[OF q]]])
    moreover have "(2::rat) powi (bitlen p - 1) / 2 powi (bitlen q)
        = 2 powi (bitlen p - 1 - bitlen q)"
      by (subst power_int_diff) simp_all
    moreover have "bitlen p - 1 - bitlen q = ?e - 1"
      by simp
    ultimately show ?thesis
      by (simp only: x)
  qed
  show "2 powi (ilog2 x) \<le> x"
    using low by (simp add: ilog2_def pq Let_def)
  show "x < 2 powi (ilog2 x + 1)"
    using up by (simp add: ilog2_def pq Let_def not_le)
qed

lemma pow2_less_imp_less:
  assumes "(2::rat) powi i < 2 powi j"
  shows "i < j"
proof (rule ccontr)
  assume "\<not> i < j"
  then have "(2::rat) powi j \<le> 2 powi i"
    by (intro power_int_increasing) simp_all
  with assms show False by simp
qed



lemma roundHalfEven_of_int: "roundHalfEven (of_int n) = n"
  by (simp add: roundHalfEven_def Let_def)


text \<open>It lies within half a unit in the last place of the exact value.\<close>

lemma roundHalfEven_error: "\<bar>of_int (roundHalfEven y) - y\<bar> \<le> 1 / 2"
proof -
  have "of_int \<lfloor>y\<rfloor> \<le> y" "y < of_int \<lfloor>y\<rfloor> + 1"
    by linarith+
  then show ?thesis
    by (auto simp: roundHalfEven_def Let_def abs_le_iff)
qed

lemma fl_nearest: "\<bar>fl x - x\<bar> \<le> 2 powi (max (ilog2 \<bar>x\<bar> - 52) (- 1074)) / 2"
proof (cases "x = 0")
  case True
  then show ?thesis by (simp add: fl_def)
next
  case False
  define e where "e = max (ilog2 \<bar>x\<bar> - 52) (- 1074)"
  define y where "y = \<bar>x\<bar> / 2 powi e"
  have x: "x = sgn x * (y * 2 powi e)"
    by (simp add: y_def mult_sgn_abs)
  have f: "fl x = sgn x * (of_int (roundHalfEven y) * 2 powi e)"
    using False by (simp add: fl_def Let_def e_def y_def)
  have "fl x - x = sgn x * ((of_int (roundHalfEven y) - y) * 2 powi e)"
    by (subst f, subst (2) x) (simp add: algebra_simps)
  then have "\<bar>fl x - x\<bar> = \<bar>of_int (roundHalfEven y) - y\<bar> * 2 powi e"
    using False by (simp add: abs_mult abs_sgn_eq)
  also have "\<dots> \<le> 1 / 2 * 2 powi e"
    by (intro mult_right_mono roundHalfEven_error) simp
  finally show ?thesis
    by (simp add: e_def)
qed

lemma fl_minus: "fl (- x) = - fl x"
  by (simp add: fl_def Let_def)

text \<open>A significand below \<open>2 ^ 53\<close> is not rounded.\<close>

lemma fl_exact_pos:
  assumes m: "0 < m" "m < 2 ^ 53" and e: "- 1074 \<le> e"
  shows "fl (of_int m * 2 powi e) = of_int m * 2 powi e"
proof -
  define a where "a = (of_int m :: rat) * 2 powi e"
  define e' where "e' = max (ilog2 a - 52) (- 1074)"
  have a: "0 < a"
    using m(1) by (simp add: a_def)
  have "(of_int m :: rat) < of_int (2 ^ 53)"
    using m(2) by (simp only: of_int_less_iff)
  then have "a < 2 ^ 53 * 2 powi e"
    by (simp add: a_def)
  also have "(2::rat) ^ 53 * 2 powi e = 2 powi (e + 53)"
    by (simp add: power_int_add)
  finally have "(2::rat) powi (ilog2 a) < 2 powi (e + 53)"
    using ilog2_bounds(1)[OF a] by simp
  then have "ilog2 a < e + 53"
    by (rule pow2_less_imp_less)
  with e have le: "e' \<le> e"
    by (simp add: e'_def)
  have "a / 2 powi e' = of_int m * 2 powi (e - e')"
    by (simp add: a_def power_int_diff)
  also have "(2::rat) powi (e - e') = of_int (2 ^ nat (e - e'))"
    using le by (simp add: power_int_def)
  finally have "a / 2 powi e' = of_int (m * 2 ^ nat (e - e'))"
    by simp
  then have r: "roundHalfEven (a / 2 powi e') = m * 2 ^ nat (e - e')"
    by (simp only: roundHalfEven_of_int)
  have "fl a = of_int (roundHalfEven (a / 2 powi e')) * 2 powi e'"
    using a by (simp add: fl_def Let_def e'_def)
  also have "\<dots> = of_int m * (of_int (2 ^ nat (e - e')) * 2 powi e')"
    by (simp add: r)
  also have "(of_int (2 ^ nat (e - e')) :: rat) = 2 powi (e - e')"
    using le by (simp add: power_int_def)
  also have "(2::rat) powi (e - e') * 2 powi e' = 2 powi e"
    by (simp flip: power_int_add)
  finally show ?thesis
    by (simp add: a_def)
qed

lemma fl_exact:
  assumes "\<bar>m\<bar> < 2 ^ 53" and "- 1074 \<le> e"
  shows "fl (of_int m * 2 powi e) = of_int m * 2 powi e"
proof -
  consider "m = 0" | "0 < m" | "m < 0"
    by linarith
  then show ?thesis
  proof cases
    case 1
    then show ?thesis by (simp add: fl_def)
  next
    case 2
    with assms show ?thesis by (intro fl_exact_pos) simp_all
  next
    case 3
    with assms have "fl (of_int (- m) * 2 powi e) = of_int (- m) * 2 powi e"
      by (intro fl_exact_pos) simp_all
    then show ?thesis
      using fl_minus[of "of_int m * 2 powi e"] by simp
  qed
qed

lemma fl_zero: "fl 0 = 0"
  by (simp add: fl_def)

lemma fl_one: "fl 1 = 1"
  using fl_exact[of 1 0] by simp

lemma fl_numeral:
  "(numeral w :: int) < 9007199254740992 \<Longrightarrow> fl (numeral w) = numeral w"
  using fl_exact[of "numeral w" 0] by simp

lemma fl_numeral_half:
  "(numeral w :: int) < 9007199254740992 \<Longrightarrow> fl (numeral w / 2) = numeral w / 2"
  using fl_exact[of "numeral w" "- 1"] by (simp add: power_int_minus field_simps)

lemma fl_numeral_eighth:
  "(numeral w :: int) < 9007199254740992 \<Longrightarrow> fl (numeral w / 8) = numeral w / 8"
  using fl_exact[of "numeral w" "- 3"] by (simp add: power_int_minus field_simps)

lemmas fl_small = fadd_def fsub_def fmul_def fdiv_def fl_zero fl_one fl_minus fl_numeral
  fl_numeral_half fl_numeral_eighth







section \<open>Auxiliary facts\<close>

lemma submitted_cases:
  "submitted (handleCheckout createSale st) = (if cart st = [] then None else Some (mkSaleData st))"
  by (simp add: handleCheckout_def Let_def split: ApiResult.splits bool.splits option.splits)

lemma toast_completed_iff:
  "toast (handleCheckout createSale st) = Some SaleCompleted \<longleftrightarrow>
     cart st \<noteq> [] \<and> (\<exists>d msg. createSale (mkSaleData st) = Returned True (Some d) msg)"
  by (auto simp add: handleCheckout_def Let_def split: ApiResult.splits bool.splits option.splits)

lemma foldl_add_sum_list:
  "foldl (\<lambda>sum x. sum + f x) a xs = (a::'a::comm_monoid_add) + sum_list (map f xs)"
  by (induction xs arbitrary: a) (simp_all add: add.assoc)






lemma addAll_Nil: "addAll [] st = st"
  by (simp add: addAll_def)

lemma addAll_Cons: "addAll (d # ds) st = addAll ds (snd (addToCart d st))"
  by (simp add: addAll_def)

lemmas sample_defs = sampleMedicine_def sampleSyrup_def sampleB1_def sampleB2_def
  initialState_def onDiscountChange_def addAll_Nil addAll_Cons

lemmas cart_defs = addToCart_def mkMedicine_def mkInventoryItem_def itemKey_def medKey_def
  js_or_def truthy_def Let_def

lemma sampleState_cart:
  "cart sampleState =
     [\<lparr>medicine = \<lparr>m_uid = Some ''M'', m_id = Some ''M'', m_name = ''Paracetamol''\<rparr>,
       inventory = mkInventoryItem (mkMedicine sampleMedicine) sampleB1,
       quantity = 1, unitPrice = 10\<rparr>,
      \<lparr>medicine = \<lparr>m_uid = Some ''S'', m_id = Some ''S'', m_name = ''Cough syrup''\<rparr>,
       inventory = mkInventoryItem (mkMedicine sampleSyrup) (hd (the (batches sampleSyrup))),
       quantity = 2, unitPrice = 15 / 2\<rparr>]"
  by (simp add: sampleState_def sample_defs cart_defs)

lemma sampleState_fields:
  "customerName sampleState = ''Sita''" "customerMobile sampleState = []"
  "discountPercentage sampleState = 50" "paymentMethod sampleState = Credit"
  by (simp_all add: sampleState_def sample_defs cart_defs)

lemma sampleState_totals:
  "calculateTotals sampleState =
     \<lparr>subtotal = 25, discount = 25 / 2, vatAmount = 13 / 8, totalDue = 113 / 8\<rparr>"
  by (simp add: calculateTotals_def Let_def sampleState_cart sampleState_fields fl_small)

lemma fiveAdded_cart:
  "cart fiveAdded =
     [\<lparr>medicine = \<lparr>m_uid = Some ''M'', m_id = Some ''M'', m_name = ''Paracetamol''\<rparr>,
       inventory = mkInventoryItem (mkMedicine sampleMedicine) sampleB1,
       quantity = 5, unitPrice = 10\<rparr>]"
  by (simp add: fiveAdded_def sample_defs cart_defs)

lemma sixAdded_cart:
  "cart sixAdded =
     [\<lparr>medicine = \<lparr>m_uid = Some ''M'', m_id = Some ''M'', m_name = ''Paracetamol''\<rparr>,
       inventory = mkInventoryItem (mkMedicine sampleMedicine) sampleB1,
       quantity = 6, unitPrice = 10\<rparr>]"
  by (simp add: sixAdded_def sample_defs cart_defs)

lemma sixAdded_step: "snd (addToCart sampleMedicine fiveAdded) = sixAdded"
proof -
  have "addAll (ds @ [d]) st = snd (addToCart d (addAll ds st))" for ds d st
    by (simp add: addAll_def)
  from this[of "[sampleMedicine, sampleMedicine, sampleMedicine, sampleMedicine, sampleMedicine]"
      sampleMedicine initialState]
  show ?thesis by (simp add: sixAdded_def fiveAdded_def)
qed






section \<open>Pricing\<close>







section \<open>Checkout\<close>

text \<open>
  Claim C9. \<open>handleCheckout\<close> posts nothing for an empty cart, and for every other cart it
  posts a sale with payment status \<open>paid\<close>, \<open>amountPaid\<close> equal to the computed total and
  \<open>amountDue\<close> equal to 0, whatever the selected payment method is (\<open>credit\<close> included).
\<close>

theorem checkout_always_paid:
  "(cart st = [] \<longrightarrow> submitted (handleCheckout createSale st) = None)
   \<and> (cart st \<noteq> [] \<longrightarrow>
        (\<exists>sale. submitted (handleCheckout createSale st) = Some sale
           \<and> sd_paymentMethod sale = paymentMethod st
           \<and> paymentStatus sale = Paid
           \<and> amountPaid sale = totalDue (calculateTotals st)
           \<and> totalAmount sale = totalDue (calculateTotals st)
           \<and> amountDue sale = 0))"
  by (simp add: submitted_cases mkSaleData_def Let_def)

theorem checkout_always_paid_witness:
  "cart sampleState \<noteq> [] \<and> paymentMethod sampleState = Credit
   \<and> (\<exists>sale. submitted (handleCheckout acceptSale sampleState) = Some sale
          \<and> sd_paymentMethod sale = Credit
          \<and> paymentStatus sale = Paid
          \<and> amountPaid sale = 113 / 8
          \<and> amountDue sale = 0)"
proof -
  have ne: "cart sampleState \<noteq> []"
    by (simp add: sampleState_cart)
  have t: "totalDue (calculateTotals sampleState) = 113 / 8"
    by (simp add: sampleState_totals)
  from checkout_always_paid[of sampleState acceptSale] ne t sampleState_fields(4)
  show ?thesis by auto
qed

text \<open>
  Claim C8. A checkout succeeds exactly when the cart is not empty and \<open>createSale\<close>
  returns a successful response with data. In every other case (empty cart, a thrown
  error such as a refusal for insufficient stock, an unsuccessful response) the cart,
  the customer name, the customer mobile and the discount percentage keep their values;
  on success they are reset to the empty cart, the empty strings and 0.
\<close>

theorem failed_checkout_keeps_state:
  "(toast (handleCheckout createSale st) = Some SaleCompleted \<longleftrightarrow>
      cart st \<noteq> [] \<and> (\<exists>d msg. createSale (mkSaleData st) = Returned True (Some d) msg))
   \<and> (toast (handleCheckout createSale st) \<noteq> Some SaleCompleted \<longrightarrow>
        cart (after (handleCheckout createSale st)) = cart st
        \<and> customerName (after (handleCheckout createSale st)) = customerName st
        \<and> customerMobile (after (handleCheckout createSale st)) = customerMobile st
        \<and> discountPercentage (after (handleCheckout createSale st)) = discountPercentage st)
   \<and> (toast (handleCheckout createSale st) = Some SaleCompleted \<longrightarrow>
        cart (after (handleCheckout createSale st)) = []
        \<and> customerName (after (handleCheckout createSale st)) = []
        \<and> customerMobile (after (handleCheckout createSale st)) = []
        \<and> discountPercentage (after (handleCheckout createSale st)) = 0)"
proof (intro conjI)
  show "toast (handleCheckout createSale st) = Some SaleCompleted \<longleftrightarrow>
      cart st \<noteq> [] \<and> (\<exists>d msg. createSale (mkSaleData st) = Returned True (Some d) msg)"
    by (rule toast_completed_iff)
next
  show "toast (handleCheckout createSale st) \<noteq> Some SaleCompleted \<longrightarrow>
        cart (after (handleCheckout createSale st)) = cart st
        \<and> customerName (after (handleCheckout createSale st)) = customerName st
        \<and> customerMobile (after (handleCheckout createSale st)) = customerMobile st
        \<and> discountPercentage (after (handleCheckout createSale st)) = discountPercentage st"
    by (simp add: handleCheckout_def Let_def split: ApiResult.splits bool.splits option.splits)
next
  show "toast (handleCheckout createSale st) = Some SaleCompleted \<longrightarrow>
        cart (after (handleCheckout createSale st)) = []
        \<and> customerName (after (handleCheckout createSale st)) = []
        \<and> customerMobile (after (handleCheckout createSale st)) = []
        \<and> discountPercentage (after (handleCheckout createSale st)) = 0"
    by (simp add: handleCheckout_def Let_def split: ApiResult.splits bool.splits option.splits)
qed

theorem failed_checkout_keeps_state_witness:
  "toast (handleCheckout refuseSale sampleState) = Some (SaleFailed ''Insufficient stock'')
   \<and> cart (after (handleCheckout refuseSale sampleState)) = cart sampleState
   \<and> customerName (after (handleCheckout refuseSale sampleState)) = ''Sita''
   \<and> discountPercentage (after (handleCheckout refuseSale sampleState)) = 50
   \<and> toast (handleCheckout acceptSale sampleState) = Some SaleCompleted
   \<and> cart (after (handleCheckout acceptSale sampleState)) = []
   \<and> customerName (after (handleCheckout acceptSale sampleState)) = []
   \<and> discountPercentage (after (handleCheckout acceptSale sampleState)) = 0"
proof -
  have ne: "cart sampleState \<noteq> []"
    by (simp add: sampleState_cart)
  have r: "toast (handleCheckout refuseSale sampleState) = Some (SaleFailed ''Insufficient stock'')"
    using ne by (simp add: handleCheckout_def Let_def refuseSale_def messageOr_def)
  have a: "toast (handleCheckout acceptSale sampleState) = Some SaleCompleted"
    using ne by (simp add: handleCheckout_def Let_def acceptSale_def)
  from failed_checkout_keeps_state[of refuseSale sampleState]
    failed_checkout_keeps_state[of acceptSale sampleState] r a sampleState_fields
  show ?thesis by simp
qed

section \<open>The cart\<close>

lemma itemKey_quantity_update: "itemKey (item\<lparr>quantity := q\<rparr>) = itemKey item"
  by (simp add: itemKey_def)

lemma itemKey_comp_requantify:
  "itemKey \<circ> (\<lambda>item. if P item then item\<lparr>quantity := q item\<rparr> else item) = itemKey"
  by (auto simp: fun_eq_iff itemKey_quantity_update)

lemma inventory_comp_requantify:
  "inventory \<circ> (\<lambda>item. if P item then item\<lparr>quantity := q item\<rparr> else item) = inventory"
  by (auto simp: fun_eq_iff)

lemma list_all_requantify:
  "list_all (\<lambda>item. 1 \<le> quantity item) c \<Longrightarrow> (\<And>item. item \<in> set c \<Longrightarrow> 1 \<le> q item) \<Longrightarrow>
   list_all (\<lambda>item. 1 \<le> quantity item)
     (map (\<lambda>item. if P item then item\<lparr>quantity := q item\<rparr> else item) c)"
  by (induction c) auto

lemma find_requantify:
  "find (\<lambda>item. itemKey item = k)
        (map (\<lambda>item. if itemKey item = k then item\<lparr>quantity := q item\<rparr> else item) c)
   = map_option (\<lambda>item. item\<lparr>quantity := q item\<rparr>) (find (\<lambda>item. itemKey item = k) c)"
  by (induction c) (simp_all add: itemKey_quantity_update)

lemma find_key_None: "find (\<lambda>item. itemKey item = k) c = None \<Longrightarrow> k \<notin> set (map itemKey c)"
  by (auto simp: find_None_iff)

lemma removed_key:
  "m_uid (medicine item) \<noteq> Some k \<Longrightarrow> m_id (medicine item) \<noteq> Some k \<Longrightarrow> itemKey item \<noteq> Some k"
  by (simp add: itemKey_def medKey_def js_or_def)

lemma found_is_removed:
  "itemKey item = Some k \<Longrightarrow> m_uid (medicine item) = Some k \<or> m_id (medicine item) = Some k"
  using removed_key by blast

lemma find_after_remove:
  "find (\<lambda>item. itemKey item = Some k) (cart (removeFromCart k st)) = None"
  by (auto simp: find_None_iff removeFromCart_def removed_key)

lemma length_after_remove:
  assumes "find (\<lambda>item. itemKey item = Some k) (cart st) = Some item"
  shows "length (cart (removeFromCart k st)) < length (cart st)"
proof -
  from assms have "item \<in> set (cart st)" and "itemKey item = Some k"
    by (auto simp: find_Some_iff)
  then have "item \<in> set (cart st)"
    and "\<not> (m_uid (medicine item) \<noteq> Some k \<and> m_id (medicine item) \<noteq> Some k)"
    using found_is_removed by blast+
  then have "length (filter (\<lambda>item. m_uid (medicine item) \<noteq> Some k
                                    \<and> m_id (medicine item) \<noteq> Some k) (cart st))
             < length (cart st)"
    by (rule length_filter_less)
  then show ?thesis
    by (simp add: removeFromCart_def)
qed

lemma cartInv_remove: "cartInv (cart st) \<Longrightarrow> cartInv (cart (removeFromCart k st))"
  by (simp add: cartInv_def removeFromCart_def distinct_map_filter list_all_iff)

lemma cartInv_setQuantity: "cartInv (cart st) \<Longrightarrow> 0 < q \<Longrightarrow> cartInv (cart (setQuantity k q st))"
  by (simp add: cartInv_def setQuantity_def list_all_requantify itemKey_comp_requantify)

lemma cartInv_add: "cartInv (cart st) \<Longrightarrow> cartInv (cart (snd (addToCart d st)))"
proof -
  assume inv: "cartInv (cart st)"
  have incr: "cartInv (map (\<lambda>item. if itemKey item = k then item\<lparr>quantity := quantity item + 1\<rparr>
                                  else item) (cart st))" for k
    using inv
    by (auto simp: cartInv_def list_all_iff itemKey_comp_requantify
        intro!: list_all_requantify[unfolded list_all_iff])
  have new: "find (\<lambda>item. itemKey item = medKey (mkMedicine d)) (cart st) = None \<Longrightarrow>
      cartInv (cart st @ [\<lparr>medicine = mkMedicine d, inventory = i, quantity = 1, unitPrice = p\<rparr>])"
    for i p
    using inv find_key_None[of "medKey (mkMedicine d)" "cart st"]
    by (simp add: cartInv_def itemKey_def)
  show ?thesis
    using inv incr new
    by (simp add: addToCart_def Let_def split: option.splits list.splits)
qed

lemma cartInv_update:
  "cartInv (cart st) \<Longrightarrow> cartInv (cart (snd (updateQuantity fetch k delta st)))"
  by (simp add: updateQuantity_def Let_def cartInv_remove cartInv_setQuantity
      split: option.splits ApiResult.splits bool.splits)

lemma cartInv_checkout: "cartInv (cart st) \<Longrightarrow> cartInv (cart (after (handleCheckout cs st)))"
  by (simp add: handleCheckout_def Let_def cartInv_def
      split: option.splits ApiResult.splits bool.splits)

lemma addToCart_existing:
  assumes f: "find (\<lambda>item. itemKey item = medKey (mkMedicine d)) (cart st) = Some existing"
    and r: "addToCart d st = (None, st')"
  shows "cart st' = map (\<lambda>item. if itemKey item = medKey (mkMedicine d)
                                  then item\<lparr>quantity := quantity item + 1\<rparr> else item) (cart st)"
    and "quantity existing + 1 \<le> availableStock d"
  using f r by (auto simp: addToCart_def Let_def split: option.splits list.splits if_splits)

lemma addToCart_existing_keys:
  assumes f: "find (\<lambda>item. itemKey item = medKey (mkMedicine d)) (cart st) = Some existing"
  shows "map itemKey (cart (snd (addToCart d st))) = map itemKey (cart st)"
    and "map inventory (cart (snd (addToCart d st))) = map inventory (cart st)"
  using f
  by (auto simp: addToCart_def Let_def itemKey_comp_requantify inventory_comp_requantify
      split: option.splits list.splits if_splits)

lemma addToCart_new:
  assumes f: "find (\<lambda>item. itemKey item = medKey (mkMedicine d)) (cart st) = None"
    and r: "addToCart d st = (None, st')"
  shows "\<exists>b bs. batches d = Some (b # bs) \<and>
           cart st' = cart st @ [\<lparr>medicine = mkMedicine d,
                                  inventory = mkInventoryItem (mkMedicine d) b,
                                  quantity = 1, unitPrice = b_sellingPrice b\<rparr>]"
  using f r by (auto simp: addToCart_def Let_def split: option.splits list.splits if_splits)

lemma oneAdded_cart:
  "cart oneAdded =
     [\<lparr>medicine = \<lparr>m_uid = Some ''M'', m_id = Some ''M'', m_name = ''Paracetamol''\<rparr>,
       inventory = mkInventoryItem (mkMedicine sampleMedicine) sampleB1,
       quantity = 1, unitPrice = 10\<rparr>]"
  by (simp add: oneAdded_def sample_defs cart_defs)

lemma find_fiveAdded:
  "find (\<lambda>item. itemKey item = Some ''M'') (cart fiveAdded) = Some (hd (cart fiveAdded))"
  by (simp add: fiveAdded_cart itemKey_def medKey_def js_or_def truthy_def)

lemma medKey_sampleMedicine:
  "medKey (mkMedicine sampleMedicine) = Some ''M''"
  "medKey (mkMedicine sampleMedicineLater) = Some ''M''"
  by (simp_all add: medKey_def mkMedicine_def js_or_def truthy_def sampleMedicine_def
      sampleMedicineLater_def)

lemma sameIds_key:
  "m_uid (medicine item) = m_id (medicine item) \<Longrightarrow>
   (m_uid (medicine item) \<noteq> Some k \<and> m_id (medicine item) \<noteq> Some k) = (itemKey item \<noteq> Some k)"
  by (simp add: itemKey_def medKey_def js_or_def)

lemma remove_by_key:
  assumes "sameIds (cart st)"
  shows "cart (removeFromCart k st) = filter (\<lambda>item. itemKey item \<noteq> Some k) (cart st)"
proof -
  have "(m_uid (medicine item) \<noteq> Some k \<and> m_id (medicine item) \<noteq> Some k)
          = (itemKey item \<noteq> Some k)" if "item \<in> set (cart st)" for item
  proof -
    from assms that have "m_uid (medicine item) = m_id (medicine item)"
      by (simp add: sameIds_def list_all_iff)
    then show ?thesis by (rule sameIds_key)
  qed
  then have "filter (\<lambda>item. m_uid (medicine item) \<noteq> Some k \<and> m_id (medicine item) \<noteq> Some k)
               (cart st)
             = filter (\<lambda>item. itemKey item \<noteq> Some k) (cart st)"
    by (intro filter_cong refl)
  then show ?thesis
    by (simp add: removeFromCart_def)
qed

lemma filter_key_remove1:
  "distinct (map itemKey c) \<Longrightarrow> find (\<lambda>item. itemKey item = k) c = Some x \<Longrightarrow>
   filter (\<lambda>item. itemKey item \<noteq> k) c = remove1 x c"
proof (induction c)
  case Nil
  then show ?case by simp
next
  case (Cons a c)
  show ?case
  proof (cases "itemKey a = k")
    case True
    with Cons.prems have ax: "x = a" and notin: "k \<notin> itemKey ` set c"
      by auto
    from notin have "filter (\<lambda>item. itemKey item \<noteq> k) c = c"
      by (induction c) auto
    with True ax show ?thesis by simp
  next
    case False
    with Cons.prems have f: "find (\<lambda>item. itemKey item = k) c = Some x"
      by simp
    then have "itemKey x = k"
      by (auto simp: find_Some_iff)
    with False have "a \<noteq> x" by auto
    with False Cons f show ?thesis by simp
  qed
qed

lemma requantify_list_update:
  "distinct (map itemKey c) \<Longrightarrow> find (\<lambda>item. itemKey item = k) c = Some x \<Longrightarrow>
   \<exists>i<length c. c ! i = x \<and>
     map (\<lambda>item. if itemKey item = k then item\<lparr>quantity := quantity item + 1\<rparr> else item) c
       = c[i := x\<lparr>quantity := quantity x + 1\<rparr>]"
proof (induction c)
  case Nil
  then show ?case by simp
next
  case (Cons a c)
  show ?case
  proof (cases "itemKey a = k")
    case True
    with Cons.prems have ax: "x = a" and notin: "k \<notin> itemKey ` set c"
      by auto
    from notin
    have "map (\<lambda>item. if itemKey item = k then item\<lparr>quantity := quantity item + 1\<rparr> else item) c
            = c"
      by (induction c) auto
    with True ax show ?thesis
      by (intro exI[of _ 0]) simp
  next
    case False
    with Cons.prems have "distinct (map itemKey c)"
      and "find (\<lambda>item. itemKey item = k) c = Some x"
      by simp_all
    from Cons.IH[OF this] obtain i where "i < length c" "c ! i = x"
      "map (\<lambda>item. if itemKey item = k then item\<lparr>quantity := quantity item + 1\<rparr> else item) c
         = c[i := x\<lparr>quantity := quantity x + 1\<rparr>]"
      by blast
    with False show ?thesis
      by (intro exI[of _ "Suc i"]) simp
  qed
qed

lemma sameIds_remove: "sameIds (cart st) \<Longrightarrow> sameIds (cart (removeFromCart k st))"
  by (simp add: sameIds_def removeFromCart_def list_all_iff)

lemma sameIds_setQuantity: "sameIds (cart st) \<Longrightarrow> sameIds (cart (setQuantity k q st))"
  by (auto simp: sameIds_def setQuantity_def list_all_iff)

lemma sameIds_add: "sameIds (cart st) \<Longrightarrow> sameIds (cart (snd (addToCart d st)))"
  by (auto simp: sameIds_def addToCart_def Let_def list_all_iff mkMedicine_def
      split: option.splits list.splits)

lemma sameIds_update:
  "sameIds (cart st) \<Longrightarrow> sameIds (cart (snd (updateQuantity fetch k delta st)))"
  by (simp add: updateQuantity_def Let_def sameIds_remove sameIds_setQuantity
      split: option.splits ApiResult.splits bool.splits)

lemma sameIds_checkout: "sameIds (cart st) \<Longrightarrow> sameIds (cart (after (handleCheckout cs st)))"
  by (simp add: handleCheckout_def Let_def sameIds_def
      split: option.splits ApiResult.splits bool.splits)

lemma addToCart_goes_through:
  "fst (addToCart d st) = None \<longleftrightarrow>
     hasStock d \<and> batches d \<noteq> None \<and> batches d \<noteq> Some []
     \<and> (case find (\<lambda>item. itemKey item = medKey (mkMedicine d)) (cart st) of
          None \<Rightarrow> True
        | Some existing \<Rightarrow> quantity existing + 1 \<le> availableStock d)"
  by (auto simp: addToCart_def Let_def split: option.splits list.splits)

lemma addToCart_refused: "fst (addToCart d st) \<noteq> None \<Longrightarrow> snd (addToCart d st) = st"
  by (auto simp: addToCart_def Let_def split: option.splits list.splits if_splits)

lemma find_sampleState:
  "find (\<lambda>item. itemKey item = Some ''S'') (cart sampleState) = Some (cart sampleState ! 1)"
  "find (\<lambda>item. itemKey item = Some ''M'') (cart sampleState) = Some (cart sampleState ! 0)"
  by (simp_all add: sampleState_cart itemKey_def medKey_def js_or_def truthy_def)

lemma medKey_sampleSyrup: "medKey (mkMedicine sampleSyrup) = Some ''S''"
  by (simp add: medKey_def mkMedicine_def js_or_def truthy_def sampleSyrup_def)

text \<open>
  Five units in the cart and a search result that reports 5 available: \<open>addToCart\<close> on
  the medicine, which is in the cart, leaves its quantity at 5.
\<close>

theorem refused_increment_counterexample:
  "map itemKey (cart fiveAdded) = [medKey (mkMedicine sampleMedicineLater)]
   \<and> map quantity (cart fiveAdded) = [5]
   \<and> map quantity (cart (snd (addToCart sampleMedicineLater fiveAdded))) = [5]"
proof -
  have k: "map itemKey (cart fiveAdded) = [medKey (mkMedicine sampleMedicineLater)]"
    by (simp add: fiveAdded_cart medKey_sampleMedicine itemKey_def)
       (simp add: medKey_def js_or_def truthy_def)
  have q: "map quantity (cart fiveAdded) = [5]"
    by (simp add: fiveAdded_cart)
  have "fst (addToCart sampleMedicineLater fiveAdded) \<noteq> None"
    using find_fiveAdded
    by (simp add: addToCart_goes_through medKey_sampleMedicine)
       (simp add: fiveAdded_cart sampleMedicineLater_def sampleMedicine_def)
  then have "snd (addToCart sampleMedicineLater fiveAdded) = fiveAdded"
    by (rule addToCart_refused)
  with k q show ?thesis by simp
qed

text \<open>
  Claim C10, as the code has it. The empty cart of the initial state satisfies the
  invariant (every quantity at least 1, at most one item per medicine identity), and
  \<open>addToCart\<close>, \<open>updateQuantity\<close>, \<open>removeFromCart\<close> and \<open>handleCheckout\<close> preserve it,
  as they preserve that the two identity properties of every medicine in the cart agree.
  For a medicine already in the cart \<open>addToCart\<close> never adds an entry: if the search
  result passes the stock guard (\<open>hasStock\<close>, a non-empty \<open>batches\<close>) and the quantity
  plus 1 does not exceed \<open>availableStock\<close>, it raises the quantity of that one item by
  exactly 1 and leaves the rest of the cart as it is; otherwise it reports an error and
  leaves the state as it is. An \<open>updateQuantity\<close> that would bring the quantity of an
  item to 0 or below removes exactly that item.
\<close>

theorem cart_invariant:
  "cartInv (cart initialState) \<and> sameIds (cart initialState)
   \<and> (cartInv (cart st) \<longrightarrow>
        cartInv (cart (snd (addToCart d st)))
        \<and> cartInv (cart (snd (updateQuantity fetch medicineId delta st)))
        \<and> cartInv (cart (removeFromCart medicineId st))
        \<and> cartInv (cart (after (handleCheckout createSale st))))
   \<and> (sameIds (cart st) \<longrightarrow>
        sameIds (cart (snd (addToCart d st)))
        \<and> sameIds (cart (snd (updateQuantity fetch medicineId delta st)))
        \<and> sameIds (cart (removeFromCart medicineId st))
        \<and> sameIds (cart (after (handleCheckout createSale st))))
   \<and> (cartInv (cart st)
        \<and> find (\<lambda>item. itemKey item = medKey (mkMedicine d)) (cart st) = Some existing \<longrightarrow>
        (if hasStock d \<and> batches d \<noteq> None \<and> batches d \<noteq> Some []
            \<and> quantity existing + 1 \<le> availableStock d
         then fst (addToCart d st) = None
              \<and> (\<exists>i<length (cart st). cart st ! i = existing
                    \<and> cart (snd (addToCart d st))
                        = (cart st)[i := existing\<lparr>quantity := quantity existing + 1\<rparr>])
         else fst (addToCart d st) \<noteq> None \<and> snd (addToCart d st) = st))
   \<and> (cartInv (cart st) \<and> sameIds (cart st)
        \<and> find (\<lambda>item. itemKey item = Some medicineId) (cart st) = Some item
        \<and> quantity item + delta \<le> 0 \<longrightarrow>
        cart (snd (updateQuantity fetch medicineId delta st)) = remove1 item (cart st)
        \<and> item \<notin> set (cart (snd (updateQuantity fetch medicineId delta st)))
        \<and> length (cart (snd (updateQuantity fetch medicineId delta st))) + 1
            = length (cart st))"
proof (intro conjI impI)
  show "cartInv (cart initialState)"
    by (simp add: cartInv_def initialState_def)
  show "sameIds (cart initialState)"
    by (simp add: sameIds_def initialState_def)
next
  assume "cartInv (cart st)"
  then show "cartInv (cart (snd (addToCart d st)))"
    "cartInv (cart (snd (updateQuantity fetch medicineId delta st)))"
    "cartInv (cart (removeFromCart medicineId st))"
    "cartInv (cart (after (handleCheckout createSale st)))"
    by (simp_all add: cartInv_add cartInv_update cartInv_remove cartInv_checkout)
next
  assume "sameIds (cart st)"
  then show "sameIds (cart (snd (addToCart d st)))"
    "sameIds (cart (snd (updateQuantity fetch medicineId delta st)))"
    "sameIds (cart (removeFromCart medicineId st))"
    "sameIds (cart (after (handleCheckout createSale st)))"
    by (simp_all add: sameIds_add sameIds_update sameIds_remove sameIds_checkout)
next
  assume a: "cartInv (cart st)
        \<and> find (\<lambda>item. itemKey item = medKey (mkMedicine d)) (cart st) = Some existing"
  then have f: "find (\<lambda>item. itemKey item = medKey (mkMedicine d)) (cart st) = Some existing"
    and dist: "distinct (map itemKey (cart st))"
    by (simp_all add: cartInv_def)
  show "if hasStock d \<and> batches d \<noteq> None \<and> batches d \<noteq> Some []
            \<and> quantity existing + 1 \<le> availableStock d
         then fst (addToCart d st) = None
              \<and> (\<exists>i<length (cart st). cart st ! i = existing
                    \<and> cart (snd (addToCart d st))
                        = (cart st)[i := existing\<lparr>quantity := quantity existing + 1\<rparr>])
         else fst (addToCart d st) \<noteq> None \<and> snd (addToCart d st) = st"
  proof (cases "hasStock d \<and> batches d \<noteq> None \<and> batches d \<noteq> Some []
            \<and> quantity existing + 1 \<le> availableStock d")
    case True
    then have ok: "fst (addToCart d st) = None"
      by (simp add: addToCart_goes_through f)
    then have r: "addToCart d st = (None, snd (addToCart d st))"
      by (metis prod.collapse)
    from requantify_list_update[OF dist f] ok show ?thesis
      unfolding if_P[OF True] addToCart_existing(1)[OF f r] by simp
  next
    case False
    then have no: "fst (addToCart d st) \<noteq> None"
      by (simp add: addToCart_goes_through f)
    with addToCart_refused[OF no] show ?thesis
      unfolding if_not_P[OF False] by simp
  qed
next
  assume a: "cartInv (cart st) \<and> sameIds (cart st)
        \<and> find (\<lambda>item. itemKey item = Some medicineId) (cart st) = Some item
        \<and> quantity item + delta \<le> 0"
  then have f: "find (\<lambda>item. itemKey item = Some medicineId) (cart st) = Some item"
    and dist: "distinct (map itemKey (cart st))" and ids: "sameIds (cart st)"
    by (simp_all add: cartInv_def)
  from a have u: "snd (updateQuantity fetch medicineId delta st) = removeFromCart medicineId st"
    by (simp add: updateQuantity_def Let_def)
  have c: "cart (removeFromCart medicineId st) = remove1 item (cart st)"
    by (simp only: remove_by_key[OF ids] filter_key_remove1[OF dist f])
  from f have mem: "item \<in> set (cart st)"
    by (auto simp: find_Some_iff)
  from dist have d: "distinct (cart st)"
    by (simp add: distinct_map)
  show "cart (snd (updateQuantity fetch medicineId delta st)) = remove1 item (cart st)"
    by (simp only: u c)
  show "item \<notin> set (cart (snd (updateQuantity fetch medicineId delta st)))"
    using d by (simp add: u c)
  show "length (cart (snd (updateQuantity fetch medicineId delta st))) + 1 = length (cart st)"
    using mem by (simp add: u c length_remove1) (cases "cart st", auto)
qed

theorem cart_invariant_witness:
  "cartInv (cart sampleState) \<and> sameIds (cart sampleState)
   \<and> map quantity (cart sampleState) = [1, 2]
   \<and> find (\<lambda>item. itemKey item = medKey (mkMedicine sampleSyrup)) (cart sampleState)
       = Some (cart sampleState ! 1)
   \<and> quantity (cart sampleState ! 1) + 1 \<le> availableStock sampleSyrup
   \<and> fst (addToCart sampleSyrup sampleState) = None
   \<and> cartInv (cart (snd (addToCart sampleSyrup sampleState)))
   \<and> map quantity (cart (snd (addToCart sampleSyrup sampleState))) = [1, 3]
   \<and> find (\<lambda>item. itemKey item = Some ''M'') (cart sampleState) = Some (cart sampleState ! 0)
   \<and> quantity (cart sampleState ! 0) + (- 1) \<le> 0
   \<and> cart (snd (updateQuantity (getMedicineBatches (sampleBackend True)) ''M'' (- 1) sampleState))
       = [cart sampleState ! 1]"
proof -
  have inv: "cartInv (cart sampleState)"
    by (simp add: cartInv_def sampleState_cart itemKey_def medKey_def js_or_def truthy_def)
  have ids: "sameIds (cart sampleState)"
    by (simp add: sameIds_def sampleState_cart)
  have q: "map quantity (cart sampleState) = [1, 2]" "length (cart sampleState) = 2"
    "quantity (cart sampleState ! 1) = 2" "quantity (cart sampleState ! 0) = 1"
    by (simp_all add: sampleState_cart)
  have s: "hasStock sampleSyrup" "batches sampleSyrup \<noteq> None" "batches sampleSyrup \<noteq> Some []"
    "availableStock sampleSyrup = 4"
    by (simp_all add: sampleSyrup_def)
  have f1: "find (\<lambda>item. itemKey item = medKey (mkMedicine sampleSyrup)) (cart sampleState)
       = Some (cart sampleState ! 1)"
    using find_sampleState(1) by (simp add: medKey_sampleSyrup)
  have r: "remove1 (cart sampleState ! 0) (cart sampleState) = [cart sampleState ! 1]"
    by (simp add: sampleState_cart)
  note t = cart_invariant[where st = sampleState and d = sampleSyrup
      and fetch = "getMedicineBatches (sampleBackend True)" and medicineId = "''M''"
      and delta = "- 1" and createSale = acceptSale and existing = "cart sampleState ! 1"
      and item = "cart sampleState ! 0"]
  from t inv ids f1 find_sampleState(2) q s
  obtain i where i: "i < 2" "cart sampleState ! i = cart sampleState ! 1"
    and c: "cart (snd (addToCart sampleSyrup sampleState))
        = (cart sampleState)[i := (cart sampleState ! 1)\<lparr>quantity := 3\<rparr>]"
    and ok: "fst (addToCart sampleSyrup sampleState) = None"
    and inv': "cartInv (cart (snd (addToCart sampleSyrup sampleState)))"
    and rm: "cart (snd (updateQuantity (getMedicineBatches (sampleBackend True)) ''M'' (- 1)
                sampleState)) = remove1 (cart sampleState ! 0) (cart sampleState)"
    by auto
  from i have "i = 1"
    by (cases "i = 0") (simp_all add: sampleState_cart)
  with c have "map quantity (cart (snd (addToCart sampleSyrup sampleState))) = [1, 3]"
    by (simp add: sampleState_cart)
  with inv ids q s f1 find_sampleState(2) ok inv' rm r show ?thesis
    by simp
qed

section \<open>Allocation of batches\<close>

text \<open>
  The sale posted for a cart whose only item has reached quantity 6: a single line of
  quantity 6 on batch B1, which holds 5, although the medicine has a second batch.
\<close>

theorem single_batch_line_counterexample:
  "batches sampleMedicine = Some [sampleB1, sampleB2]
   \<and> batchId sampleB1 = Some ''B1'' \<and> b_quantity sampleB1 = 5
   \<and> sixAdded = snd (addToCart sampleMedicine fiveAdded)
   \<and> map_option items (submitted (handleCheckout acceptSale sixAdded))
       = Some [\<lparr>si_medicine = Some ''M'', si_inventory = Some ''B1'',
                si_batchNumber = ''BN-001'', si_quantity = 6, si_unitPrice = 10,
                si_subtotal = 60\<rparr>]"
proof -
  have a: "batches sampleMedicine = Some [sampleB1, sampleB2]"
    by (simp add: sampleMedicine_def)
  have b: "batchId sampleB1 = Some ''B1''" "b_quantity sampleB1 = 5"
    by (simp_all add: sampleB1_def)
  have c: "map_option items (submitted (handleCheckout acceptSale sixAdded))
       = Some [\<lparr>si_medicine = Some ''M'', si_inventory = Some ''B1'',
                si_batchNumber = ''BN-001'', si_quantity = 6, si_unitPrice = 10,
                si_subtotal = 60\<rparr>]"
    by (simp add: submitted_cases sixAdded_cart mkSaleData_def mkSaleItem_def
        mkInventoryItem_def Let_def js_or_def truthy_def sampleB1_def fl_small)
  show ?thesis
    using a b c sixAdded_step by simp
qed

text \<open>
  Claim C1, as the code has it. Allocation never splits. \<open>handleCheckout\<close> posts exactly
  one line per cart item, for the item's medicine, on the one batch recorded in the item and
  with the item's whole quantity. \<open>addToCart\<close> records \<open>batches[0]\<close> of the search result
  in a new item with quantity 1; for a medicine already in the cart it leaves every recorded
  batch as it is and raises the quantity by 1. It goes through exactly when the search
  result passes the guard on \<open>hasStock\<close> and \<open>batches\<close> and, for a medicine already in
  the cart, the raised quantity does not exceed the \<open>availableStock\<close> of the medicine (the
  total over its batches): the quantity of the recorded batch plays no part.
\<close>

theorem one_line_per_cart_item:
  "(\<forall>sale. submitted (handleCheckout createSale st) = Some sale \<longrightarrow>
       length (items sale) = length (cart st)
       \<and> map si_medicine (items sale) = map itemKey (cart st)
       \<and> map si_inventory (items sale)
           = map (\<lambda>item. js_or (inv_uid (inventory item)) (inv_id (inventory item))) (cart st)
       \<and> map si_quantity (items sale) = map quantity (cart st))
   \<and> (fst (addToCart d st) = None \<longrightarrow>
        (case find (\<lambda>item. itemKey item = medKey (mkMedicine d)) (cart st) of
           None \<Rightarrow>
             (\<exists>b bs. batches d = Some (b # bs)
                \<and> cart (snd (addToCart d st))
                    = cart st @ [\<lparr>medicine = mkMedicine d,
                                   inventory = mkInventoryItem (mkMedicine d) b,
                                   quantity = 1, unitPrice = b_sellingPrice b\<rparr>])
         | Some existing \<Rightarrow>
             map inventory (cart (snd (addToCart d st))) = map inventory (cart st)
             \<and> find (\<lambda>item. itemKey item = medKey (mkMedicine d)) (cart (snd (addToCart d st)))
                 = Some (existing\<lparr>quantity := quantity existing + 1\<rparr>)
             \<and> quantity existing + 1 \<le> availableStock d))
   \<and> (fst (addToCart d st) = None \<longleftrightarrow>
        hasStock d \<and> batches d \<noteq> None \<and> batches d \<noteq> Some []
        \<and> (case find (\<lambda>item. itemKey item = medKey (mkMedicine d)) (cart st) of
             None \<Rightarrow> True
           | Some existing \<Rightarrow> quantity existing + 1 \<le> availableStock d))"
proof (intro conjI allI impI)
  fix sale
  assume "submitted (handleCheckout createSale st) = Some sale"
  then have s: "sale = mkSaleData st"
    by (simp add: submitted_cases split: if_splits)
  show "length (items sale) = length (cart st)"
    by (simp add: s mkSaleData_def Let_def)
  show "map si_medicine (items sale) = map itemKey (cart st)"
    by (simp add: s mkSaleData_def Let_def mkSaleItem_def itemKey_def medKey_def comp_def)
  show "map si_inventory (items sale)
          = map (\<lambda>item. js_or (inv_uid (inventory item)) (inv_id (inventory item))) (cart st)"
    by (simp add: s mkSaleData_def Let_def mkSaleItem_def comp_def)
  show "map si_quantity (items sale) = map quantity (cart st)"
    by (simp add: s mkSaleData_def Let_def mkSaleItem_def comp_def)
next
  assume ok: "fst (addToCart d st) = None"
  then have r: "addToCart d st = (None, snd (addToCart d st))"
    by (metis prod.collapse)
  show "case find (\<lambda>item. itemKey item = medKey (mkMedicine d)) (cart st) of
           None \<Rightarrow>
             (\<exists>b bs. batches d = Some (b # bs)
                \<and> cart (snd (addToCart d st))
                    = cart st @ [\<lparr>medicine = mkMedicine d,
                                   inventory = mkInventoryItem (mkMedicine d) b,
                                   quantity = 1, unitPrice = b_sellingPrice b\<rparr>])
         | Some existing \<Rightarrow>
             map inventory (cart (snd (addToCart d st))) = map inventory (cart st)
             \<and> find (\<lambda>item. itemKey item = medKey (mkMedicine d)) (cart (snd (addToCart d st)))
                 = Some (existing\<lparr>quantity := quantity existing + 1\<rparr>)
             \<and> quantity existing + 1 \<le> availableStock d"
  proof (cases "find (\<lambda>item. itemKey item = medKey (mkMedicine d)) (cart st)")
    case None
    from addToCart_new[OF None r] None show ?thesis
      by simp
  next
    case (Some existing)
    have "find (\<lambda>item. itemKey item = medKey (mkMedicine d)) (cart (snd (addToCart d st)))
            = Some (existing\<lparr>quantity := quantity existing + 1\<rparr>)"
      unfolding addToCart_existing(1)[OF Some r] by (simp add: find_requantify Some)
    with addToCart_existing_keys(2)[OF Some] addToCart_existing(2)[OF Some r] Some
    show ?thesis by simp
  qed
next
  show "fst (addToCart d st) = None \<longleftrightarrow>
        hasStock d \<and> batches d \<noteq> None \<and> batches d \<noteq> Some []
        \<and> (case find (\<lambda>item. itemKey item = medKey (mkMedicine d)) (cart st) of
             None \<Rightarrow> True
           | Some existing \<Rightarrow> quantity existing + 1 \<le> availableStock d)"
    by (rule addToCart_goes_through)
qed

theorem one_line_per_cart_item_witness:
  "submitted (handleCheckout acceptSale fiveAdded) = Some (mkSaleData fiveAdded)
   \<and> length (items (mkSaleData fiveAdded)) = 1
   \<and> map si_inventory (items (mkSaleData fiveAdded)) = [Some ''B1'']
   \<and> map si_quantity (items (mkSaleData fiveAdded)) = [5]
   \<and> hasStock sampleMedicine \<and> batches sampleMedicine = Some [sampleB1, sampleB2]
   \<and> find (\<lambda>item. itemKey item = medKey (mkMedicine sampleMedicine)) (cart fiveAdded)
       = Some (hd (cart fiveAdded))
   \<and> quantity (hd (cart fiveAdded)) + 1 \<le> availableStock sampleMedicine
   \<and> inv_quantity (inventory (hd (cart fiveAdded))) < quantity (hd (cart fiveAdded)) + 1
   \<and> fst (addToCart sampleMedicine fiveAdded) = None
   \<and> map inventory (cart (snd (addToCart sampleMedicine fiveAdded)))
       = [mkInventoryItem (mkMedicine sampleMedicine) sampleB1]
   \<and> find (\<lambda>item. itemKey item = medKey (mkMedicine sampleMedicine))
          (cart (snd (addToCart sampleMedicine fiveAdded)))
       = Some (hd (cart fiveAdded)\<lparr>quantity := 6\<rparr>)"
proof -
  have h: "submitted (handleCheckout acceptSale fiveAdded) = Some (mkSaleData fiveAdded)"
    by (simp add: submitted_cases fiveAdded_cart)
  have f: "find (\<lambda>item. itemKey item = medKey (mkMedicine sampleMedicine)) (cart fiveAdded)
       = Some (hd (cart fiveAdded))"
    using find_fiveAdded by (simp add: medKey_sampleMedicine)
  have d: "hasStock sampleMedicine" "batches sampleMedicine = Some [sampleB1, sampleB2]"
    "availableStock sampleMedicine = 15"
    by (simp_all add: sampleMedicine_def)
  have v: "map (\<lambda>item. js_or (inv_uid (inventory item)) (inv_id (inventory item))) (cart fiveAdded)
             = [Some ''B1'']"
    "map quantity (cart fiveAdded) = [5]" "length (cart fiveAdded) = 1"
    "map inventory (cart fiveAdded) = [mkInventoryItem (mkMedicine sampleMedicine) sampleB1]"
    "quantity (hd (cart fiveAdded)) = 5"
    "inv_quantity (inventory (hd (cart fiveAdded))) = 5"
    by (simp_all add: fiveAdded_cart mkInventoryItem_def js_or_def truthy_def sampleB1_def)
  from one_line_per_cart_item[of acceptSale fiveAdded sampleMedicine] h f d v
  show ?thesis by simp
qed

section \<open>Stock checks\<close>

text \<open>
  The server holds 5 units of the medicine and cannot be reached. With 5 units in the
  cart, \<open>updateQuantity\<close> by +1 raises no toast and sets the quantity to 6.
\<close>

theorem unchecked_update_counterexample:
  "totalAvailableOf \<lparr>bd_batches = stockOf (sampleBackend False) ''M''\<rparr> = 5
   \<and> map quantity (cart fiveAdded) = [5]
   \<and> fst (updateQuantity (getMedicineBatches (sampleBackend False)) ''M'' 1 fiveAdded) = None
   \<and> map quantity
        (cart (snd (updateQuantity (getMedicineBatches (sampleBackend False)) ''M'' 1 fiveAdded)))
       = [6]"
proof -
  have a: "totalAvailableOf \<lparr>bd_batches = stockOf (sampleBackend False) ''M''\<rparr> = 5"
    by (simp add: totalAvailableOf_def sampleBackend_def sampleB1_def)
  have b: "map quantity (cart fiveAdded) = [5]"
    by (simp add: fiveAdded_cart)
  have g: "getMedicineBatches (sampleBackend False) ''M''
      = Threw ''Unable to connect to server. Please ensure the backend is running on http://localhost:5000''"
    by (simp add: getMedicineBatches_def sampleBackend_def)
  have u: "updateQuantity (getMedicineBatches (sampleBackend False)) ''M'' 1 fiveAdded
      = (None, setQuantity ''M'' 6 fiveAdded)"
    by (simp add: updateQuantity_def Let_def find_fiveAdded g) (simp add: fiveAdded_cart)
  have c: "map quantity (cart (setQuantity ''M'' 6 fiveAdded)) = [6]"
    by (simp add: setQuantity_def fiveAdded_cart itemKey_def medKey_def js_or_def truthy_def)
  show ?thesis
    using a b c by (simp add: u)
qed

text \<open>
  Claim C4, as the code has it. Where the page has a stock figure, a request above it
  fails with \<open>InsufficientStock\<close> carrying that figure and leaves the state as it was:
  in \<open>addToCart\<close> for a medicine already in the cart (the figure is the \<open>availableStock\<close>
  of a search result that passes the guard on \<open>hasStock\<close> and \<open>batches\<close>), and in
  \<open>updateQuantity\<close> to a positive quantity when the batches lookup returned successfully
  with data (the figure is the sum of the returned batch quantities).
\<close>

theorem insufficient_stock_when_known:
  "(find (\<lambda>item. itemKey item = medKey (mkMedicine d)) (cart st) = Some existing
      \<and> hasStock d \<and> batches d = Some (b # bs)
      \<and> availableStock d < quantity existing + 1 \<longrightarrow>
      addToCart d st = (Some (InsufficientStock (availableStock d)), st))
   \<and> (find (\<lambda>item. itemKey item = Some medicineId) (cart st) = Some item
      \<and> fetch medicineId = Returned True (Some bd) msg
      \<and> 0 < quantity item + delta
      \<and> sum_list (map b_quantity (bd_batches bd)) < quantity item + delta \<longrightarrow>
      updateQuantity fetch medicineId delta st
        = (Some (InsufficientStock (sum_list (map b_quantity (bd_batches bd)))), st))"
proof (intro conjI impI)
  assume "find (\<lambda>item. itemKey item = medKey (mkMedicine d)) (cart st) = Some existing
      \<and> hasStock d \<and> batches d = Some (b # bs)
      \<and> availableStock d < quantity existing + 1"
  then show "addToCart d st = (Some (InsufficientStock (availableStock d)), st)"
    by (simp add: addToCart_def Let_def)
next
  assume a: "find (\<lambda>item. itemKey item = Some medicineId) (cart st) = Some item
      \<and> fetch medicineId = Returned True (Some bd) msg
      \<and> 0 < quantity item + delta
      \<and> sum_list (map b_quantity (bd_batches bd)) < quantity item + delta"
  have t: "totalAvailableOf bd = sum_list (map b_quantity (bd_batches bd))"
    by (simp add: totalAvailableOf_def foldl_add_sum_list)
  from a show "updateQuantity fetch medicineId delta st
        = (Some (InsufficientStock (sum_list (map b_quantity (bd_batches bd)))), st)"
    by (simp add: updateQuantity_def Let_def t)
qed

theorem insufficient_stock_when_known_witness:
  "find (\<lambda>item. itemKey item = medKey (mkMedicine sampleMedicineLater)) (cart fiveAdded)
     = Some (hd (cart fiveAdded))
   \<and> availableStock sampleMedicineLater < quantity (hd (cart fiveAdded)) + 1
   \<and> addToCart sampleMedicineLater fiveAdded = (Some (InsufficientStock 5), fiveAdded)
   \<and> getMedicineBatches (sampleBackend True) ''M''
       = Returned True (Some \<lparr>bd_batches = [sampleB1]\<rparr>) None
   \<and> sum_list (map b_quantity [sampleB1]) < quantity (hd (cart fiveAdded)) + 1
   \<and> updateQuantity (getMedicineBatches (sampleBackend True)) ''M'' 1 fiveAdded
       = (Some (InsufficientStock 5), fiveAdded)"
proof -
  have f: "find (\<lambda>item. itemKey item = medKey (mkMedicine sampleMedicineLater)) (cart fiveAdded)
     = Some (hd (cart fiveAdded))"
    using find_fiveAdded by (simp add: medKey_sampleMedicine)
  have q: "quantity (hd (cart fiveAdded)) = 5"
    by (simp add: fiveAdded_cart)
  have d: "hasStock sampleMedicineLater" "batches sampleMedicineLater = Some (sampleB1 # [])"
    "availableStock sampleMedicineLater = 5"
    by (simp_all add: sampleMedicineLater_def sampleMedicine_def)
  have g: "getMedicineBatches (sampleBackend True) ''M''
       = Returned True (Some \<lparr>bd_batches = [sampleB1]\<rparr>) None"
    by (simp add: getMedicineBatches_def sampleBackend_def)
  have s: "sum_list (map b_quantity [sampleB1]) = 5"
    by (simp add: sampleB1_def)
  from insufficient_stock_when_known[of sampleMedicineLater fiveAdded "hd (cart fiveAdded)"
      sampleB1 "[]" "''M''" "hd (cart fiveAdded)" "getMedicineBatches (sampleBackend True)"
      "\<lparr>bd_batches = [sampleB1]\<rparr>" None 1]
    f find_fiveAdded q d g s
  show ?thesis by simp
qed

section \<open>Quantity zero\<close>

text \<open>
  One unit in the cart and \<open>updateQuantity\<close> by -1, a request for quantity 0: no toast is
  raised and the cart is emptied; the page is back in its initial state.
\<close>

theorem zero_quantity_counterexample:
  "map quantity (cart oneAdded) = [1]
   \<and> updateQuantity (getMedicineBatches (sampleBackend True)) ''M'' (- 1) oneAdded
       = (None, initialState)"
proof -
  have f: "find (\<lambda>item. itemKey item = Some ''M'') (cart oneAdded) = Some (hd (cart oneAdded))"
    by (simp add: oneAdded_cart itemKey_def medKey_def js_or_def truthy_def)
  have r: "removeFromCart ''M'' oneAdded = initialState"
    by (simp add: removeFromCart_def oneAdded_def sample_defs cart_defs)
  show ?thesis
    by (simp add: updateQuantity_def Let_def f r) (simp add: oneAdded_cart)
qed

text \<open>
  Claim C5, as the code has it. An \<open>updateQuantity\<close> that would bring the quantity of a
  cart item to 0 or below is not reported at all: it raises no toast (so it is never
  classified as insufficient stock), it makes no use of the stock lookup, and it removes
  the item from the cart.
\<close>

theorem zero_quantity_removes_silently:
  "find (\<lambda>item. itemKey item = Some medicineId) (cart st) = Some item
     \<and> quantity item + delta \<le> 0 \<longrightarrow>
   fst (updateQuantity fetch medicineId delta st) = None
   \<and> updateQuantity fetch medicineId delta st = updateQuantity fetch' medicineId delta st
   \<and> snd (updateQuantity fetch medicineId delta st) = removeFromCart medicineId st
   \<and> find (\<lambda>item. itemKey item = Some medicineId)
          (cart (snd (updateQuantity fetch medicineId delta st))) = None
   \<and> length (cart (snd (updateQuantity fetch medicineId delta st))) < length (cart st)"
proof
  assume a: "find (\<lambda>item. itemKey item = Some medicineId) (cart st) = Some item
     \<and> quantity item + delta \<le> 0"
  then have u: "updateQuantity g medicineId delta st = (None, removeFromCart medicineId st)" for g
    by (simp add: updateQuantity_def Let_def)
  from a have f: "find (\<lambda>item. itemKey item = Some medicineId) (cart st) = Some item"
    by simp
  show "fst (updateQuantity fetch medicineId delta st) = None
   \<and> updateQuantity fetch medicineId delta st = updateQuantity fetch' medicineId delta st
   \<and> snd (updateQuantity fetch medicineId delta st) = removeFromCart medicineId st
   \<and> find (\<lambda>item. itemKey item = Some medicineId)
          (cart (snd (updateQuantity fetch medicineId delta st))) = None
   \<and> length (cart (snd (updateQuantity fetch medicineId delta st))) < length (cart st)"
    by (simp add: u find_after_remove length_after_remove[OF f])
qed

theorem zero_quantity_removes_silently_witness:
  "find (\<lambda>item. itemKey item = Some ''S'') (cart sampleState) = Some (cart sampleState ! 1)
   \<and> quantity (cart sampleState ! 1) + (- 2) \<le> 0
   \<and> fst (updateQuantity (getMedicineBatches (sampleBackend True)) ''S'' (- 2) sampleState) = None
   \<and> map itemKey
        (cart (snd (updateQuantity (getMedicineBatches (sampleBackend True)) ''S'' (- 2)
                 sampleState)))
       = [Some ''M'']"
proof -
  have f: "find (\<lambda>item. itemKey item = Some ''S'') (cart sampleState)
             = Some (cart sampleState ! 1)"
    by (simp add: sampleState_cart itemKey_def medKey_def js_or_def truthy_def)
  have q: "quantity (cart sampleState ! 1) + (- 2) \<le> 0"
    by (simp add: sampleState_cart)
  have r: "map itemKey (cart (removeFromCart ''S'' sampleState)) = [Some ''M'']"
    by (simp add: removeFromCart_def sampleState_cart itemKey_def medKey_def js_or_def truthy_def)
  from zero_quantity_removes_silently[of "''S''" sampleState "cart sampleState ! 1" "- 2"
      "getMedicineBatches (sampleBackend True)" "getMedicineBatches (sampleBackend True)"]
    f q r
  show ?thesis by simp
qed

section \<open>The discount percentage\<close>

text \<open>
  Claim C6, at a discount of 150 percent. The discount field of the page declares the
  bounds 0 and 100, but its \<open>onChange\<close> handler stores whatever number was typed and
  \<open>handleCheckout\<close> does not look at the value: the sale is posted with a discount
  percentage of 150, a negative VAT amount and a negative total, and the checkout
  completes.
\<close>

theorem discount_150_is_submitted:
  "discountPercentage (onDiscountChange (Some 150) sampleState) = 150
   \<and> toast (handleCheckout acceptSale (onDiscountChange (Some 150) sampleState))
       = Some SaleCompleted
   \<and> map_option sd_discountPercentage
        (submitted (handleCheckout acceptSale (onDiscountChange (Some 150) sampleState)))
       = Some 150
   \<and> map_option sd_discount
        (submitted (handleCheckout acceptSale (onDiscountChange (Some 150) sampleState)))
       = Some (75 / 2)
   \<and> map_option totalAmount
        (submitted (handleCheckout acceptSale (onDiscountChange (Some 150) sampleState)))
       = Some (- (113 / 8))"
proof -
  have c: "cart (onDiscountChange (Some 150) sampleState) = cart sampleState"
    and p: "discountPercentage (onDiscountChange (Some 150) sampleState) = 150"
    by (simp_all add: onDiscountChange_def)
  have t: "calculateTotals (onDiscountChange (Some 150) sampleState)
      = \<lparr>subtotal = 25, discount = 75 / 2, vatAmount = - (13 / 8), totalDue = - (113 / 8)\<rparr>"
    by (simp add: calculateTotals_def Let_def c p sampleState_cart fl_small)
  have ne: "cart (onDiscountChange (Some 150) sampleState) \<noteq> []"
    by (simp add: c sampleState_cart)
  have ok: "toast (handleCheckout acceptSale (onDiscountChange (Some 150) sampleState))
       = Some SaleCompleted"
    using ne by (simp add: handleCheckout_def Let_def acceptSale_def)
  show ?thesis
    using ne ok p by (simp add: submitted_cases mkSaleData_def Let_def t)
qed

end
